theory Spec2Isabelle
  imports Main "HOL-Library.Word"
begin

section \<open>JavaScript strings\<close>

text \<open>
  A JavaScript string is a sequence of UTF-16 code units. The empty string is the empty
  list; it is the only falsy string.
\<close>

type_synonym code_unit = "16 word"
type_synonym js_string = "code_unit list"

text \<open>A string literal of the source, given by its (ASCII) characters.\<close>

definition lit :: "string \<Rightarrow> js_string" where
  "lit cs = map of_char cs"

text \<open>
  The code units that \<^verbatim>\<open>String.prototype.trim\<close> strips: ECMAScript WhiteSpace
  (TAB, VT, FF, SP, NBSP, ZWNBSP and the Unicode space separators) and LineTerminator
  (LF, CR, LS, PS). All of them lie in the Basic Multilingual Plane.
\<close>

definition isWhiteSpace :: "code_unit \<Rightarrow> bool" where
  "isWhiteSpace c =
     (c \<in> set [0x9, 0xA, 0xB, 0xC, 0xD, 0x20, 0xA0, 0x1680,
                0x2028, 0x2029, 0x202F, 0x205F, 0x3000, 0xFEFF]
      \<or> (0x2000 \<le> c \<and> c \<le> 0x200A))"

definition trim :: "js_string \<Rightarrow> js_string" where
  "trim s = rev (dropWhile isWhiteSpace (rev (dropWhile isWhiteSpace s)))"

definition startsWith :: "js_string \<Rightarrow> js_string \<Rightarrow> bool" where
  "startsWith s p = (take (length p) s = p)"

text \<open>\<^verbatim>\<open>xs.join(sep)\<close> on an array of strings.\<close>

fun join :: "js_string list \<Rightarrow> js_string \<Rightarrow> js_string" where
  "join [] sep = []"
| "join [x] sep = x"
| "join (x # y # ys) sep = x @ sep @ join (y # ys) sep"

text \<open>
  \<^verbatim>\<open>s.split(sep)\<close> for a separator of one code unit; the result is never empty
  (\<^verbatim>\<open>''.split(',')\<close> is \<^verbatim>\<open>['']\<close>).
\<close>

fun splitOn :: "js_string \<Rightarrow> code_unit \<Rightarrow> js_string list" where
  "splitOn [] sep = [[]]"
| "splitOn (c # cs) sep =
     (if c = sep then [] # splitOn cs sep
      else (case splitOn cs sep of
              p # ps \<Rightarrow> (c # p) # ps
            | [] \<Rightarrow> [[c]]))"

text \<open>Array indexing \<^verbatim>\<open>xs[i]\<close>: \<^verbatim>\<open>undefined\<close> (here \<open>None\<close>) out of range.\<close>

definition index :: "'a list \<Rightarrow> nat \<Rightarrow> 'a option" where
  "index xs i = (if i < length xs then Some (xs ! i) else None)"

text \<open>
  \<^verbatim>\<open>v || d\<close> where \<open>v\<close> is a string, \<^verbatim>\<open>null\<close> or \<^verbatim>\<open>undefined\<close> (\<open>None\<close>)
  and \<open>d\<close> a string: \<open>v\<close> when it is truthy, that is a non-empty string, else \<open>d\<close>.
\<close>

definition orElse :: "js_string option \<Rightarrow> js_string \<Rightarrow> js_string" where
  "orElse v d = (case v of None \<Rightarrow> d | Some m \<Rightarrow> (if m = [] then d else m))"

section \<open>Data model (types.ts)\<close>

text \<open>
  A browser \<^verbatim>\<open>File\<close>: its name, its MIME type (\<^verbatim>\<open>file.type\<close>) and its bytes.
\<close>

record File =
  f_name :: js_string
  f_type :: js_string
  f_bytes :: "8 word list"

record PdfDocument =
  doc_file :: File
  doc_text :: js_string

text \<open>
  \<^verbatim>\<open>data\<close> is declared a string; at run time it is what \<^verbatim>\<open>split(',')[1]\<close> gave,
  so it can be \<^verbatim>\<open>undefined\<close>.
\<close>

record ImagePayload =
  data :: "js_string option"
  mimeType :: js_string
  i_name :: js_string

record QuizQuestion =
  qq_question :: js_string
  qq_options :: "js_string list"
  qq_answer :: js_string

datatype Role = User | Model

record ConversationTurn =
  role :: Role
  content :: js_string

record Profile =
  p_name :: js_string
  title :: js_string
  picture :: "js_string option"

section \<open>Collaborators\<close>

text \<open>
  A value caught by \<^verbatim>\<open>catch (e)\<close>. The handlers cast it to \<^verbatim>\<open>Error\<close> and read
  nothing of it but \<^verbatim>\<open>e.message\<close>. On \<^verbatim>\<open>null\<close> and \<^verbatim>\<open>undefined\<close> (\<open>Nullish\<close>)
  that read itself throws a TypeError; on any other value it gives the message, a string
  as \<^verbatim>\<open>Error\<close> declares it, or \<^verbatim>\<open>undefined\<close> (\<open>None\<close>) when the value has none.
\<close>

datatype thrown = Nullish | Thrown "js_string option"

text \<open>
  The outcome of an awaited promise: the value it resolved to, or the value it was
  rejected with.
\<close>

datatype 'a settled = Resolved 'a | Rejected thrown

text \<open>
  Modelled from the spec: the hook \<^verbatim>\<open>usePdfProcessor\<close> (hooks/usePdfProcessor) is
  not among the sources. The Document Processor "exposes current processing flag
  (busy/idle) and last error", and its "reset operation clears all documents and the
  error". Its state is the three parts the component reads, under the names the component
  gives them; \<^verbatim>\<open>setProcessedDocs\<close> and \<^verbatim>\<open>setError\<close> assign the first and the last.
\<close>

record PdfProcessor =
  processedDocs :: "PdfDocument list"
  isPdfProcessing :: bool
  pdfError :: "js_string option"

text \<open>
  The answer service, the quiz service, the hook's \<^verbatim>\<open>processPdfs\<close> and the browser's
  \<^verbatim>\<open>FileReader.readAsDataURL\<close> are outside the component; every handler takes the one
  it calls as a parameter. \<^verbatim>\<open>processPdfs\<close> can reach the hook's own state only, and
  is taken to act on that state as it is when the call is made.
\<close>

type_synonym getAnswer_t =
  "js_string \<Rightarrow> (js_string \<times> js_string) list \<Rightarrow> ImagePayload option \<Rightarrow> js_string settled"
type_synonym generateQuiz_t = "js_string \<Rightarrow> QuizQuestion list settled"
type_synonym processPdfs_t = "File list \<Rightarrow> PdfProcessor \<Rightarrow> PdfProcessor"
type_synonym readAsDataURL_t = "File \<Rightarrow> js_string settled"

section \<open>The component state\<close>

record AppState =
  pdf :: PdfProcessor
  conversation :: "ConversationTurn list"
  isGenerating :: bool
  apiError :: js_string
  image_s :: "ImagePayload option"
  quiz :: "QuizQuestion list option"
  isGeneratingQuiz :: bool
  isAnnotatorOpen :: bool
  isQuizModalOpen :: bool
  isProfileModalOpen :: bool
  profile :: Profile

text \<open>The initial values of the \<^verbatim>\<open>useState\<close> calls, over a given hook state.\<close>

definition App_init :: "PdfProcessor \<Rightarrow> AppState" where
  "App_init hook =
     \<lparr>pdf = hook, conversation = [], isGenerating = False, apiError = [],
      image_s = None, quiz = None, isGeneratingQuiz = False, isAnnotatorOpen = False,
      isQuizModalOpen = False, isProfileModalOpen = False,
      profile = \<lparr>p_name = lit ''Alex Johnson'', title = lit ''Student'', picture = None\<rparr>\<rparr>"

definition isLoading :: "AppState \<Rightarrow> bool" where
  "isLoading s = (isPdfProcessing (pdf s) \<or> isGenerating s \<or> isGeneratingQuiz s)"

definition error :: "AppState \<Rightarrow> js_string" where
  "error s = orElse (pdfError (pdf s)) (apiError s)"

section \<open>The handlers\<close>

text \<open>
  Each handler is run to completion: the state before the call, the collaborator it
  awaits, and the state once the returned promise has settled, with no other callback
  in between. The state updates apply in the order the handler issues them; the values a
  handler reads (\<^verbatim>\<open>image\<close>, \<^verbatim>\<open>processedDocs\<close>) are those of the state it was
  called in. Where a \<^verbatim>\<open>catch\<close> block itself throws (the read of \<^verbatim>\<open>message\<close> on a
  \<open>Nullish\<close> value), the rest of that block is skipped, the \<^verbatim>\<open>finally\<close> block still
  runs, and the handler's promise is rejected; the state is what the updates issued so far
  made it.
\<close>

definition fileToBase64 :: "readAsDataURL_t \<Rightarrow> File \<Rightarrow> js_string option settled" where
  "fileToBase64 readAsDataURL f =
     (case readAsDataURL f of
        Resolved result \<Rightarrow> Resolved (index (splitOn result 0x2C) 1)
      | Rejected e \<Rightarrow> Rejected e)"

definition handleClearSession :: "AppState \<Rightarrow> AppState" where
  "handleClearSession s =
     (let s1 = s\<lparr>pdf := (pdf s)\<lparr>processedDocs := []\<rparr>\<rparr>;
          s2 = s1\<lparr>conversation := []\<rparr>;
          s3 = s2\<lparr>apiError := []\<rparr>;
          s4 = s3\<lparr>pdf := (pdf s3)\<lparr>pdfError := None\<rparr>\<rparr>;
          s5 = s4\<lparr>image_s := None\<rparr>;
          s6 = s5\<lparr>quiz := None\<rparr>
      in s6\<lparr>isQuizModalOpen := False\<rparr>)"

definition handleFileChange :: "processPdfs_t \<Rightarrow> AppState \<Rightarrow> File list option \<Rightarrow> AppState" where
  "handleFileChange processPdfs s files =
     (case files of
        None \<Rightarrow> s
      | Some fs \<Rightarrow>
          if length fs > 0 then
            (let s1 = handleClearSession s
             in s1\<lparr>pdf := processPdfs fs (pdf s1)\<rparr>)
          else s)"

definition docsContext :: "AppState \<Rightarrow> (js_string \<times> js_string) list" where
  "docsContext s = map (\<lambda>d. (f_name (doc_file d), doc_text d)) (processedDocs (pdf s))"

definition handleQuestionSubmit :: "getAnswer_t \<Rightarrow> AppState \<Rightarrow> js_string \<Rightarrow> AppState" where
  "handleQuestionSubmit getAnswer s question =
     (if trim question = [] \<and> image_s s = None then s
      else
        (let newUserTurn = \<lparr>role = User, content = question\<rparr>;
             s1 = s\<lparr>conversation := conversation s @ [newUserTurn]\<rparr>;
             s2 = s1\<lparr>isGenerating := True\<rparr>;
             s3 = s2\<lparr>apiError := []\<rparr>;
             s4 = (case getAnswer question (docsContext s) (image_s s) of
                     Resolved generatedAnswer \<Rightarrow>
                       (let newModelTurn = \<lparr>role = Model, content = generatedAnswer\<rparr>
                        in s3\<lparr>conversation := conversation s3 @ [newModelTurn]\<rparr>)
                   | Rejected e \<Rightarrow>
                       (case e of
                          Nullish \<Rightarrow> s3
                        | Thrown message \<Rightarrow>
                            s3\<lparr>apiError := orElse message
                              (lit ''An unknown error occurred while generating the answer.'')\<rparr>))
         in s4\<lparr>isGenerating := False\<rparr>))"

definition handleImageSelect :: "readAsDataURL_t \<Rightarrow> AppState \<Rightarrow> File \<Rightarrow> AppState" where
  "handleImageSelect readAsDataURL s f =
     (if \<not> startsWith (f_type f) (lit ''image/'') then
        s\<lparr>apiError := lit ''Please select a valid image file.''\<rparr>
      else
        (let s1 = s\<lparr>apiError := []\<rparr>
         in case fileToBase64 readAsDataURL f of
              Resolved base64Data \<Rightarrow>
                s1\<lparr>image_s := Some \<lparr>data = base64Data, mimeType = f_type f, i_name = f_name f\<rparr>\<rparr>
            | Rejected e \<Rightarrow>
                s1\<lparr>apiError := lit ''Failed to load the image. Please try again.''\<rparr>))"

definition handleAnnotateComplete :: "AppState \<Rightarrow> ImagePayload \<Rightarrow> AppState" where
  "handleAnnotateComplete s newImagePayload =
     (let s1 = s\<lparr>image_s := Some newImagePayload\<rparr>
      in s1\<lparr>isAnnotatorOpen := False\<rparr>)"

definition handleGenerateQuiz :: "generateQuiz_t \<Rightarrow> AppState \<Rightarrow> AppState" where
  "handleGenerateQuiz generateQuiz s =
     (if length (processedDocs (pdf s)) = 0 then s
      else
        (let s1 = s\<lparr>isGeneratingQuiz := True\<rparr>;
             s2 = s1\<lparr>apiError := []\<rparr>;
             s3 = s2\<lparr>quiz := None\<rparr>;
             combinedText = join (map doc_text (processedDocs (pdf s)))
                              ([0xA, 0xA] @ lit ''---'' @ [0xA, 0xA]);
             s4 = (case generateQuiz combinedText of
                     Resolved questions \<Rightarrow> s3\<lparr>quiz := Some questions\<rparr>
                   | Rejected e \<Rightarrow>
                       (case e of
                          Nullish \<Rightarrow> s3
                        | Thrown message \<Rightarrow>
                            s3\<lparr>apiError := orElse message
                              (lit ''An unknown error occurred while generating the quiz.'')\<rparr>))
         in s4\<lparr>isGeneratingQuiz := False\<rparr>))"

definition handleProfileSave :: "AppState \<Rightarrow> Profile \<Rightarrow> AppState" where
  "handleProfileSave s newProfile =
     (let s1 = s\<lparr>profile := newProfile\<rparr>
      in s1\<lparr>isProfileModalOpen := False\<rparr>)"

section \<open>The component as a transition system\<close>

text \<open>
  Every callback the component hands to its children: the seven named handlers and the
  inline arrow functions of the JSX (\<^verbatim>\<open>onClearImage\<close>, \<^verbatim>\<open>onImageClick\<close>, the
  annotator's \<^verbatim>\<open>onCancel\<close>, and the buttons and \<^verbatim>\<open>onClose\<close> of the two modals).
\<close>

datatype Event =
    FileChange "File list option"
  | QuestionSubmit js_string
  | ImageSelect File
  | AnnotateComplete ImagePayload
  | GenerateQuiz
  | ClearSession
  | ProfileSave Profile
  | ClearImage
  | ImageClick
  | AnnotatorCancel
  | QuizOpen
  | QuizClose
  | ProfileOpen
  | ProfileClose

record Env =
  env_getAnswer :: getAnswer_t
  env_generateQuiz :: generateQuiz_t
  env_processPdfs :: processPdfs_t
  env_readAsDataURL :: readAsDataURL_t

fun step :: "Env \<Rightarrow> AppState \<Rightarrow> Event \<Rightarrow> AppState" where
  "step env s (FileChange files) = handleFileChange (env_processPdfs env) s files"
| "step env s (QuestionSubmit question) = handleQuestionSubmit (env_getAnswer env) s question"
| "step env s (ImageSelect f) = handleImageSelect (env_readAsDataURL env) s f"
| "step env s (AnnotateComplete newImagePayload) = handleAnnotateComplete s newImagePayload"
| "step env s GenerateQuiz = handleGenerateQuiz (env_generateQuiz env) s"
| "step env s ClearSession = handleClearSession s"
| "step env s (ProfileSave newProfile) = handleProfileSave s newProfile"
| "step env s ClearImage = s\<lparr>image_s := None\<rparr>"
| "step env s ImageClick = s\<lparr>isAnnotatorOpen := True\<rparr>"
| "step env s AnnotatorCancel = s\<lparr>isAnnotatorOpen := False\<rparr>"
| "step env s QuizOpen = s\<lparr>isQuizModalOpen := True\<rparr>"
| "step env s QuizClose = s\<lparr>isQuizModalOpen := False\<rparr>"
| "step env s ProfileOpen = s\<lparr>isProfileModalOpen := True\<rparr>"
| "step env s ProfileClose = s\<lparr>isProfileModalOpen := False\<rparr>"


section \<open>Collaborators used in examples\<close>



section \<open>Frame lemmas\<close>

text \<open>What each handler does to the conversation and to the attached image.\<close>

lemma conversation_handleClearSession:
  "conversation (handleClearSession s) = []"
  by (simp add: handleClearSession_def)

lemma conversation_handleFileChange:
  "conversation (handleFileChange processPdfs s files) =
     (case files of None \<Rightarrow> conversation s
      | Some fs \<Rightarrow> if fs = [] then conversation s else [])"
  by (simp add: handleFileChange_def conversation_handleClearSession Let_def
      split: option.splits)

lemma conversation_handleQuestionSubmit:
  "conversation (handleQuestionSubmit getAnswer s question) =
     (if trim question = [] \<and> image_s s = None then conversation s
      else case getAnswer question (docsContext s) (image_s s) of
             Resolved a \<Rightarrow>
               conversation s @ [\<lparr>role = User, content = question\<rparr>, \<lparr>role = Model, content = a\<rparr>]
           | Rejected e \<Rightarrow> conversation s @ [\<lparr>role = User, content = question\<rparr>])"
  by (simp add: handleQuestionSubmit_def Let_def split: settled.splits thrown.splits)

lemma conversation_handleImageSelect:
  "conversation (handleImageSelect readAsDataURL s f) = conversation s"
  by (simp add: handleImageSelect_def Let_def split: settled.splits)

lemma conversation_handleAnnotateComplete:
  "conversation (handleAnnotateComplete s newImagePayload) = conversation s"
  by (simp add: handleAnnotateComplete_def)

lemma conversation_handleGenerateQuiz:
  "conversation (handleGenerateQuiz generateQuiz s) = conversation s"
  by (simp add: handleGenerateQuiz_def Let_def split: settled.splits thrown.splits)

lemma conversation_handleProfileSave:
  "conversation (handleProfileSave s newProfile) = conversation s"
  by (simp add: handleProfileSave_def)

lemma image_handleQuestionSubmit:
  "image_s (handleQuestionSubmit getAnswer s question) = image_s s"
  by (simp add: handleQuestionSubmit_def Let_def split: settled.splits thrown.splits)

lemma lit_not_empty: "cs \<noteq> [] \<Longrightarrow> lit cs \<noteq> []"
  by (simp add: lit_def)


section \<open>Ask\<close>

text \<open>
  C1. When the trimmed question is non-empty or an image is attached, and the answer
  service resolves with \<open>a\<close>, the conversation after the call is the conversation
  before it followed by exactly two turns: the user turn carrying the question, then the
  model turn carrying \<open>a\<close>. The example that follows is the one of the specification:
  the question "What is photosynthesis?", no documents, no image, the empty conversation.
\<close>

theorem ask_success_appends_user_then_model:
  assumes "trim question \<noteq> [] \<or> image_s s \<noteq> None"
    and "getAnswer question (docsContext s) (image_s s) = Resolved a"
  shows "conversation (handleQuestionSubmit getAnswer s question) =
           conversation s @ [\<lparr>role = User, content = question\<rparr>, \<lparr>role = Model, content = a\<rparr>]
         \<and> length (conversation (handleQuestionSubmit getAnswer s question)) =
           length (conversation s) + 2"
  using assms by (auto simp add: conversation_handleQuestionSubmit)

theorem ask_success_example:
  "trim (lit ''What is photosynthesis?'') \<noteq> []
   \<and> docsContext (App_init \<lparr>processedDocs = [], isPdfProcessing = False, pdfError = None\<rparr>) = []
   \<and> image_s (App_init \<lparr>processedDocs = [], isPdfProcessing = False, pdfError = None\<rparr>) = None
   \<and> conversation
       (handleQuestionSubmit
          (\<lambda>q docs img. Resolved (lit ''Photosynthesis converts light to energy.''))
          (App_init \<lparr>processedDocs = [], isPdfProcessing = False, pdfError = None\<rparr>)
          (lit ''What is photosynthesis?''))
     = [\<lparr>role = User, content = lit ''What is photosynthesis?''\<rparr>,
        \<lparr>role = Model, content = lit ''Photosynthesis converts light to energy.''\<rparr>]"
proof -
  have guard: "trim (lit ''What is photosynthesis?'') \<noteq> []"
    by (simp add: trim_def lit_def isWhiteSpace_def)
  show ?thesis
    using guard
      ask_success_appends_user_then_model
        [of "lit ''What is photosynthesis?''"
            "App_init \<lparr>processedDocs = [], isPdfProcessing = False, pdfError = None\<rparr>"
            "\<lambda>q docs img. Resolved (lit ''Photosynthesis converts light to energy.'')"
            "lit ''Photosynthesis converts light to energy.''"]
    by (simp add: App_init_def docsContext_def)
qed





text \<open>
  C3. When the trimmed question is empty and no image is attached, the call returns the
  state it was given, whatever the answer service would do: the conversation, the error
  channel and the flags are untouched and the service's result plays no part.
\<close>

theorem ask_blank_without_image_is_noop:
  assumes "trim question = []" and "image_s s = None"
  shows "handleQuestionSubmit getAnswer s question = s"
  using assms by (simp add: handleQuestionSubmit_def)

theorem ask_blank_without_image_example:
  "trim (lit '' '' @ [0x2003, 0xA]) = []
   \<and> handleQuestionSubmit (\<lambda>q docs img. Resolved (lit ''unused''))
        (App_init \<lparr>processedDocs = [], isPdfProcessing = False, pdfError = None\<rparr>)
        (lit '' '' @ [0x2003, 0xA])
      = App_init \<lparr>processedDocs = [], isPdfProcessing = False, pdfError = None\<rparr>"
proof -
  have blank: "trim (lit '' '' @ [0x2003, 0xA]) = []"
    by (simp add: trim_def lit_def isWhiteSpace_def)
  have noimg: "image_s (App_init \<lparr>processedDocs = [], isPdfProcessing = False, pdfError = None\<rparr>) = None"
    by (simp add: App_init_def)
  show ?thesis
    using blank ask_blank_without_image_is_noop [OF blank noimg] by simp
qed

text \<open>
  C8. When the guard is passed, the attached image after the call is the attached image
  before it, whether the answer service resolves or rejects.
\<close>

theorem ask_preserves_image:
  assumes "trim question \<noteq> [] \<or> image_s s \<noteq> None"
  shows "image_s (handleQuestionSubmit getAnswer s question) = image_s s"
  using assms by (simp add: image_handleQuestionSubmit)

theorem ask_preserves_image_example:
  "image_s ((App_init \<lparr>processedDocs = [], isPdfProcessing = False, pdfError = None\<rparr>)
      \<lparr>image_s := Some \<lparr>data = Some (lit ''aGk=''), mimeType = lit ''image/png'',
                          i_name = lit ''a.png''\<rparr>\<rparr>) \<noteq> None
   \<and> image_s
       (handleQuestionSubmit (\<lambda>q docs img. Rejected Nullish)
          ((App_init \<lparr>processedDocs = [], isPdfProcessing = False, pdfError = None\<rparr>)
             \<lparr>image_s := Some \<lparr>data = Some (lit ''aGk=''), mimeType = lit ''image/png'',
                                 i_name = lit ''a.png''\<rparr>\<rparr>)
          [])
     = Some \<lparr>data = Some (lit ''aGk=''), mimeType = lit ''image/png'', i_name = lit ''a.png''\<rparr>"
  using ask_preserves_image
    [of "[]"
        "(App_init \<lparr>processedDocs = [], isPdfProcessing = False, pdfError = None\<rparr>)
           \<lparr>image_s := Some \<lparr>data = Some (lit ''aGk=''), mimeType = lit ''image/png'',
                               i_name = lit ''a.png''\<rparr>\<rparr>"
        "\<lambda>q docs img. Rejected Nullish"]
  by simp


section \<open>Clear Session\<close>

text \<open>
  C4. From any state, Clear Session leaves no documents, no turns, no image, no quiz,
  an empty \<open>apiError\<close>, a null \<open>pdfError\<close> and the quiz view closed. Clearing twice
  is clearing once, and a session in which all of these already hold is returned as it is.
\<close>

theorem clear_session_resets_and_is_idempotent:
  "processedDocs (pdf (handleClearSession s)) = []
   \<and> conversation (handleClearSession s) = []
   \<and> image_s (handleClearSession s) = None
   \<and> quiz (handleClearSession s) = None
   \<and> apiError (handleClearSession s) = []
   \<and> pdfError (pdf (handleClearSession s)) = None
   \<and> \<not> isQuizModalOpen (handleClearSession s)
   \<and> handleClearSession (handleClearSession s) = handleClearSession s
   \<and> (processedDocs (pdf s) = [] \<and> conversation s = [] \<and> image_s s = None
        \<and> quiz s = None \<and> apiError s = [] \<and> pdfError (pdf s) = None
        \<and> \<not> isQuizModalOpen s
      \<longrightarrow> handleClearSession s = s)"
  by (simp add: handleClearSession_def)

theorem clear_session_example:
  "handleClearSession (App_init \<lparr>processedDocs = [], isPdfProcessing = False, pdfError = None\<rparr>)
     = App_init \<lparr>processedDocs = [], isPdfProcessing = False, pdfError = None\<rparr>
   \<and> handleClearSession
       ((App_init \<lparr>processedDocs = [], isPdfProcessing = False, pdfError = Some (lit ''bad pdf'')\<rparr>)
          \<lparr>conversation := [\<lparr>role = User, content = lit ''Hi''\<rparr>],
           apiError := lit ''quota'', isQuizModalOpen := True, quiz := Some []\<rparr>)
     = App_init \<lparr>processedDocs = [], isPdfProcessing = False, pdfError = None\<rparr>"
proof -
  have a: "handleClearSession (App_init \<lparr>processedDocs = [], isPdfProcessing = False, pdfError = None\<rparr>)
      = App_init \<lparr>processedDocs = [], isPdfProcessing = False, pdfError = None\<rparr>"
    using clear_session_resets_and_is_idempotent
      [of "App_init \<lparr>processedDocs = [], isPdfProcessing = False, pdfError = None\<rparr>"]
    by (simp add: App_init_def)
  have b: "handleClearSession
       ((App_init \<lparr>processedDocs = [], isPdfProcessing = False, pdfError = Some (lit ''bad pdf'')\<rparr>)
          \<lparr>conversation := [\<lparr>role = User, content = lit ''Hi''\<rparr>],
           apiError := lit ''quota'', isQuizModalOpen := True, quiz := Some []\<rparr>)
     = App_init \<lparr>processedDocs = [], isPdfProcessing = False, pdfError = None\<rparr>"
    by (simp add: handleClearSession_def App_init_def)
  show ?thesis using a b by simp
qed

section \<open>Derived signals\<close>

text \<open>
  C5. \<open>isLoading\<close> holds exactly when document processing, answer generation or quiz
  generation is active; \<open>error\<close> is \<open>pdfError\<close> when that is a non-empty string and
  \<open>apiError\<close> otherwise (when \<open>pdfError\<close> is null or the empty string).
\<close>

theorem derived_busy_and_error:
  "(isLoading s \<longleftrightarrow> isPdfProcessing (pdf s) \<or> isGenerating s \<or> isGeneratingQuiz s)
   \<and> error s =
       (if pdfError (pdf s) = None \<or> pdfError (pdf s) = Some [] then apiError s
        else the (pdfError (pdf s)))"
  by (auto simp add: isLoading_def error_def orElse_def split: option.splits)

theorem derived_busy_and_error_example:
  "isLoading ((App_init \<lparr>processedDocs = [], isPdfProcessing = False, pdfError = Some (lit ''bad pdf'')\<rparr>)
      \<lparr>isGeneratingQuiz := True, apiError := lit ''quota''\<rparr>)
   \<and> error ((App_init \<lparr>processedDocs = [], isPdfProcessing = False, pdfError = Some (lit ''bad pdf'')\<rparr>)
      \<lparr>isGeneratingQuiz := True, apiError := lit ''quota''\<rparr>) = lit ''bad pdf''"
proof -
  have ne: "lit ''bad pdf'' \<noteq> []"
    by (simp add: lit_def)
  show ?thesis
    using ne derived_busy_and_error
      [of "(App_init \<lparr>processedDocs = [], isPdfProcessing = False, pdfError = Some (lit ''bad pdf'')\<rparr>)
             \<lparr>isGeneratingQuiz := True, apiError := lit ''quota''\<rparr>"]
    by (simp add: App_init_def)
qed

section \<open>Generate Quiz\<close>

text \<open>
  C6. With no processed document, Generate Quiz returns the state it was given, whatever
  the quiz service would do: the quiz, the quiz-generating flag and the error channel are
  untouched and the service's result plays no part.
\<close>

theorem generate_quiz_without_documents_is_noop:
  assumes "processedDocs (pdf s) = []"
  shows "handleGenerateQuiz generateQuiz s = s"
  using assms by (simp add: handleGenerateQuiz_def)

theorem generate_quiz_without_documents_example:
  "handleGenerateQuiz
      (\<lambda>t. Resolved [\<lparr>qq_question = lit ''Q'', qq_options = [lit ''A''], qq_answer = lit ''A''\<rparr>])
      (App_init \<lparr>processedDocs = [], isPdfProcessing = False, pdfError = None\<rparr>)
     = App_init \<lparr>processedDocs = [], isPdfProcessing = False, pdfError = None\<rparr>"
  using generate_quiz_without_documents_is_noop
    [of "App_init \<lparr>processedDocs = [], isPdfProcessing = False, pdfError = None\<rparr>"
        "\<lambda>t. Resolved [\<lparr>qq_question = lit ''Q'', qq_options = [lit ''A''], qq_answer = lit ''A''\<rparr>]"]
  by (simp add: App_init_def)

section \<open>Image selection\<close>

text \<open>
  C7. For a file whose MIME type does not start with \<open>image/\<close>, image selection changes
  nothing but \<open>apiError\<close>, which becomes the non-empty message
  "Please select a valid image file."; the attached image is the one there was, and the
  file is never read.
\<close>

theorem image_select_rejects_non_image:
  assumes "\<not> startsWith (f_type f) (lit ''image/'')"
  shows "image_s (handleImageSelect readAsDataURL s f) = image_s s
         \<and> apiError (handleImageSelect readAsDataURL s f) = lit ''Please select a valid image file.''
         \<and> apiError (handleImageSelect readAsDataURL s f) \<noteq> []
         \<and> handleImageSelect readAsDataURL s f = s\<lparr>apiError := lit ''Please select a valid image file.''\<rparr>"
proof -
  have "lit ''Please select a valid image file.'' \<noteq> []"
    by (rule lit_not_empty) simp
  then show ?thesis
    using assms by (simp add: handleImageSelect_def)
qed

theorem image_select_rejects_non_image_example:
  "\<not> startsWith (lit ''application/pdf'') (lit ''image/'')
   \<and> handleImageSelect (\<lambda>f. Resolved (lit ''data:application/pdf;base64,JVBERg==''))
       (App_init \<lparr>processedDocs = [], isPdfProcessing = False, pdfError = None\<rparr>)
       \<lparr>f_name = lit ''notes.pdf'', f_type = lit ''application/pdf'', f_bytes = [0x25, 0x50, 0x44, 0x46]\<rparr>
     = (App_init \<lparr>processedDocs = [], isPdfProcessing = False, pdfError = None\<rparr>)
         \<lparr>apiError := lit ''Please select a valid image file.''\<rparr>"
proof -
  have notimg: "\<not> startsWith (lit ''application/pdf'') (lit ''image/'')"
    by (simp add: startsWith_def lit_def)
  show ?thesis
    using notimg image_select_rejects_non_image
      [of "\<lparr>f_name = lit ''notes.pdf'', f_type = lit ''application/pdf'', f_bytes = [0x25, 0x50, 0x44, 0x46]\<rparr>"
          "\<lambda>f. Resolved (lit ''data:application/pdf;base64,JVBERg=='')"
          "App_init \<lparr>processedDocs = [], isPdfProcessing = False, pdfError = None\<rparr>"]
    by simp
qed


section \<open>File upload\<close>

text \<open>
  C10. For a non-null, non-empty batch, file upload is Clear Session followed by
  \<open>processPdfs\<close> on the hook's cleared state: \<open>processPdfs\<close> starts from no documents
  and a null \<open>pdfError\<close>, and afterwards the conversation is empty, no image is attached,
  there is no quiz, \<open>apiError\<close> is empty and the quiz view is closed. Uploading into a
  session gives the same state as uploading into that session cleared beforehand, so
  nothing of the prior session is merged into the new one.
\<close>

theorem file_upload_clears_session_first:
  assumes "fs \<noteq> []"
  shows "handleFileChange processPdfs s (Some fs) =
           (handleClearSession s)\<lparr>pdf := processPdfs fs (pdf (handleClearSession s))\<rparr>
         \<and> pdf (handleFileChange processPdfs s (Some fs)) =
           processPdfs fs
             \<lparr>processedDocs = [], isPdfProcessing = isPdfProcessing (pdf s), pdfError = None\<rparr>
         \<and> conversation (handleFileChange processPdfs s (Some fs)) = []
         \<and> image_s (handleFileChange processPdfs s (Some fs)) = None
         \<and> quiz (handleFileChange processPdfs s (Some fs)) = None
         \<and> apiError (handleFileChange processPdfs s (Some fs)) = []
         \<and> \<not> isQuizModalOpen (handleFileChange processPdfs s (Some fs))
         \<and> handleFileChange processPdfs s (Some fs) =
           handleFileChange processPdfs (handleClearSession s) (Some fs)"
proof -
  have clear_pdf: "pdf (handleClearSession s) =
      \<lparr>processedDocs = [], isPdfProcessing = isPdfProcessing (pdf s), pdfError = None\<rparr>"
    by (simp add: handleClearSession_def)
  have twice: "handleClearSession (handleClearSession s) = handleClearSession s"
    by (simp add: handleClearSession_def)
  have unfold: "\<And>t. handleFileChange processPdfs t (Some fs) =
      (handleClearSession t)\<lparr>pdf := processPdfs fs (pdf (handleClearSession t))\<rparr>"
    using assms by (simp add: handleFileChange_def Let_def)
  have fields: "conversation (handleClearSession s) = [] \<and> image_s (handleClearSession s) = None
      \<and> quiz (handleClearSession s) = None \<and> apiError (handleClearSession s) = []
      \<and> \<not> isQuizModalOpen (handleClearSession s)"
    by (simp add: handleClearSession_def)
  show ?thesis
    using clear_pdf twice fields by (simp add: unfold)
qed

theorem file_upload_clears_session_first_example:
  "[\<lparr>f_name = lit ''b.pdf'', f_type = lit ''application/pdf'', f_bytes = []\<rparr>] \<noteq> []
   \<and> handleFileChange
       (\<lambda>fs p. p\<lparr>processedDocs :=
                   processedDocs p @ map (\<lambda>f. \<lparr>doc_file = f, doc_text = lit ''text''\<rparr>) fs\<rparr>)
       ((App_init
           \<lparr>processedDocs =
              [\<lparr>doc_file = \<lparr>f_name = lit ''a.pdf'', f_type = lit ''application/pdf'', f_bytes = []\<rparr>,
                doc_text = lit ''old''\<rparr>],
            isPdfProcessing = False, pdfError = Some (lit ''bad pdf'')\<rparr>)
          \<lparr>conversation := [\<lparr>role = User, content = lit ''Hi''\<rparr>], apiError := lit ''quota''\<rparr>)
       (Some [\<lparr>f_name = lit ''b.pdf'', f_type = lit ''application/pdf'', f_bytes = []\<rparr>])
     = App_init
         \<lparr>processedDocs =
            [\<lparr>doc_file = \<lparr>f_name = lit ''b.pdf'', f_type = lit ''application/pdf'', f_bytes = []\<rparr>,
              doc_text = lit ''text''\<rparr>],
          isPdfProcessing = False, pdfError = None\<rparr>"
  using file_upload_clears_session_first
    [of "[\<lparr>f_name = lit ''b.pdf'', f_type = lit ''application/pdf'', f_bytes = []\<rparr>]"
        "\<lambda>fs p. p\<lparr>processedDocs :=
                   processedDocs p @ map (\<lambda>f. \<lparr>doc_file = f, doc_text = lit ''text''\<rparr>) fs\<rparr>"
        "(App_init
           \<lparr>processedDocs =
              [\<lparr>doc_file = \<lparr>f_name = lit ''a.pdf'', f_type = lit ''application/pdf'', f_bytes = []\<rparr>,
                doc_text = lit ''old''\<rparr>],
            isPdfProcessing = False, pdfError = Some (lit ''bad pdf'')\<rparr>)
          \<lparr>conversation := [\<lparr>role = User, content = lit ''Hi''\<rparr>], apiError := lit ''quota''\<rparr>"]
  by (simp add: App_init_def handleClearSession_def)

section \<open>The conversation is append-only\<close>

text \<open>
  C9. After any callback of the component, the conversation is the conversation before it
  with zero or more turns appended, or else the callback was Clear Session or the upload
  of a non-empty batch of files and the conversation is empty.
\<close>

theorem conversation_append_only_except_clear:
  "(\<exists>ts. conversation (step env s ev) = conversation s @ ts)
   \<or> ((ev = ClearSession \<or> (\<exists>fs. fs \<noteq> [] \<and> ev = FileChange (Some fs)))
      \<and> conversation (step env s ev) = [])"
proof (cases ev)
  case (FileChange files)
  then show ?thesis
    by (cases files) (auto simp add: conversation_handleFileChange)
next
  case (QuestionSubmit question)
  then show ?thesis
    by (auto simp add: conversation_handleQuestionSubmit split: settled.splits)
next
  case (ImageSelect f)
  then show ?thesis by (simp add: conversation_handleImageSelect)
next
  case (AnnotateComplete newImagePayload)
  then show ?thesis by (simp add: conversation_handleAnnotateComplete)
next
  case GenerateQuiz
  then show ?thesis by (simp add: conversation_handleGenerateQuiz)
next
  case ClearSession
  then show ?thesis by (simp add: conversation_handleClearSession)
next
  case (ProfileSave newProfile)
  then show ?thesis by (simp add: conversation_handleProfileSave)
qed simp_all

theorem conversation_append_only_example:
  "(\<exists>ts. conversation
       (step \<lparr>env_getAnswer = \<lambda>q docs img. Resolved (lit ''Because.''),
              env_generateQuiz = \<lambda>t. Rejected Nullish,
              env_processPdfs = \<lambda>fs p. p,
              env_readAsDataURL = \<lambda>f. Rejected Nullish\<rparr>
          ((App_init \<lparr>processedDocs = [], isPdfProcessing = False, pdfError = None\<rparr>)
             \<lparr>conversation := [\<lparr>role = User, content = lit ''Hi''\<rparr>]\<rparr>)
          (QuestionSubmit (lit ''Why?'')))
      = [\<lparr>role = User, content = lit ''Hi''\<rparr>] @ ts)"
  using conversation_append_only_except_clear
    [of "\<lparr>env_getAnswer = \<lambda>q docs img. Resolved (lit ''Because.''),
          env_generateQuiz = \<lambda>t. Rejected Nullish,
          env_processPdfs = \<lambda>fs p. p,
          env_readAsDataURL = \<lambda>f. Rejected Nullish\<rparr>"
        "(App_init \<lparr>processedDocs = [], isPdfProcessing = False, pdfError = None\<rparr>)
           \<lparr>conversation := [\<lparr>role = User, content = lit ''Hi''\<rparr>]\<rparr>"
        "QuestionSubmit (lit ''Why?'')"]
  by simp

end
